theory Spec2Isabelle
  imports Main "HOL-Library.AList"
begin

section \<open>Python values, exceptions and small string helpers\<close>

text \<open>
  The values that flow through the translation layer: \<open>None\<close>, integers (primary keys)
  and strings (language codes, field contents). Exceptions are values of \<open>error\<close>; a
  function that may raise returns \<open>error + 'a\<close> with \<open>Inl\<close> for the exception.
\<close>

datatype pyval = PNone | PInt int | PStr string

datatype error =
    KeyError
  | AttributeError
  | ImportError
  | IndexError
  | TypeError
  | ImproperlyConfigured
  | DoesNotExist
  | MultipleObjectsReturned
  | IntegrityError

text \<open>Python truthiness, as used by \<open>x or y\<close> and \<open>if not x\<close>.\<close>

fun truthy :: "pyval \<Rightarrow> bool" where
  "truthy PNone = False"
| "truthy (PInt i) = (i \<noteq> 0)"
| "truthy (PStr s) = (s \<noteq> [])"

definition py_or :: "pyval \<Rightarrow> pyval \<Rightarrow> pyval" where
  "py_or a b = (if truthy a then a else b)"

text \<open>\<open>s.split(c)\<close> for a one-character separator: always at least one component.\<close>

fun split_on :: "char \<Rightarrow> string \<Rightarrow> string list" where
  "split_on c [] = [[]]"
| "split_on c (x # xs) =
     (if x = c then [] # split_on c xs
      else (case split_on c xs of
              [] \<Rightarrow> [[x]]
            | w # ws \<Rightarrow> (x # w) # ws))"

definition endswith :: "string \<Rightarrow> string \<Rightarrow> bool" where
  "endswith s suf = (length suf \<le> length s \<and> drop (length s - length suf) s = suf)"

text \<open>\<open>s.replace(a, b)\<close> for single characters.\<close>

definition replace :: "char \<Rightarrow> char \<Rightarrow> string \<Rightarrow> string" where
  "replace a b s = map (\<lambda>c. if c = a then b else c) s"

section \<open>Model classes, fields and class bodies\<close>

text \<open>
  A Django field declaration carries its name, its class and the \<open>_unique\<close> flag; every
  other declared option is kept in \<open>foptions\<close> so that a deep copy is seen to keep it.
  Only the exact classes \<open>CharField\<close>, \<open>SlugField\<close> and \<open>TextField\<close> are selected by
  default (\<open>type(f) in [...]\<close>), every other field class is an \<open>OtherField\<close>.
\<close>

datatype field_type = CharField | SlugField | TextField | OtherField string

record field =
  fname :: string
  ftype :: field_type
  funique :: bool
  foptions :: "(string \<times> pyval) list"

record model_class =
  model_name :: string
  model_fields :: "field list"

text \<open>
  The value of \<open>Meta.unique_together\<close>: a string, or a tuple (or list) of such values.
  \<open>(('a', 'b'),)\<close> is \<open>T [T [S ''a'', S ''b'']]\<close>, and \<open>('a', 'b')\<close> is \<open>T [S ''a'', S ''b'']\<close>.
\<close>

datatype pyt = S string | T "pyt list"

text \<open>What \<open>Meta.source_model\<close> may hold: \<open>None\<close>, a string or a class.\<close>

datatype src_value = SrcNone | SrcStr string | SrcClass model_class

text \<open>The inner \<open>Meta\<close> class; \<open>None\<close> in a component means the attribute is not set.\<close>

record meta =
  source_model :: "src_value option"
  translation_fields :: "string list option"
  unique_together :: "pyt option"

datatype attr = AField field | AForeignKey model_class | AOther

text \<open>
  The class body \<open>attrs\<close> handed to the metaclass: \<open>attrs['__module__']\<close>, the inner
  \<open>Meta\<close> class when the body declares one, and the remaining entries of the dictionary.
\<close>

record class_attrs =
  attr_module :: string
  attr_Meta :: "meta option"
  attr_members :: "(string \<times> attr) list"

text \<open>
  The surroundings the metaclass reads: the global model registry behind \<open>get_model\<close>
  (which returns \<open>None\<close> for an unknown model) and the importable modules with the
  classes they define.
\<close>

record env =
  registry :: "((string \<times> string) \<times> model_class) list"
  modules :: "(string \<times> (string \<times> model_class) list) list"

definition get_model :: "env \<Rightarrow> string \<Rightarrow> string \<Rightarrow> model_class option" where
  "get_model e app_label name = map_of (registry e) (app_label, name)"

definition get_class :: "env \<Rightarrow> string \<Rightarrow> string \<Rightarrow> error + model_class" where
  "get_class e classname modulename =
     (case map_of (modules e) modulename of
        None \<Rightarrow> Inl ImportError
      | Some from_module \<Rightarrow>
          (case map_of from_module classname of
             None \<Rightarrow> Inl AttributeError
           | Some c \<Rightarrow> Inr c))"

section \<open>The metaclass \<open>I18nBase\<close>\<close>

subsection \<open>Source resolution (lines 89 to 126)\<close>

fun src_truthy :: "src_value \<Rightarrow> bool" where
  "src_truthy SrcNone = False"
| "src_truthy (SrcStr s) = (s \<noteq> [])"
| "src_truthy (SrcClass c) = True"

text \<open>\<open>getattr(attr_meta, 'source_model', None)\<close>\<close>

definition meta_source :: "meta option \<Rightarrow> src_value" where
  "meta_source attr_meta =
     (case attr_meta of
        None \<Rightarrow> SrcNone
      | Some m \<Rightarrow> (case source_model m of None \<Rightarrow> SrcNone | Some v \<Rightarrow> v))"

text \<open>The string branch: a dotted name goes to the registry, a bare one to the module.\<close>

definition resolve_string :: "env \<Rightarrow> string \<Rightarrow> src_value \<Rightarrow> error + src_value" where
  "resolve_string e modulename source =
     (case source of
        SrcStr s \<Rightarrow>
          (if src_truthy source then
             (if CHR ''.'' \<in> set s then
                (case split_on CHR ''.'' s of
                   a # b # rest \<Rightarrow>
                     (case get_model e a b of
                        None \<Rightarrow> Inr SrcNone
                      | Some c \<Rightarrow> Inr (SrcClass c))
                 | _ \<Rightarrow> Inl IndexError)
              else
                (case get_class e s modulename of
                   Inl err \<Rightarrow> Inl err
                 | Inr c \<Rightarrow> Inr (SrcClass c)))
           else Inr source)
      | _ \<Rightarrow> Inr source)"

text \<open>
  The naming convention: \<open>source is None and name.endswith('I18N')\<close>. The test does not
  tell a \<open>None\<close> that \<open>get_model\<close> returned from a missing \<open>source_model\<close>.
\<close>

definition resolve_by_name :: "env \<Rightarrow> string \<Rightarrow> string \<Rightarrow> src_value \<Rightarrow> error + src_value" where
  "resolve_by_name e modulename name source =
     (if source = SrcNone \<and> endswith name ''I18N'' then
        (case get_class e (take (length name - 4) name) modulename of
           Inl err \<Rightarrow> Inl err
         | Inr c \<Rightarrow> Inr (SrcClass c))
      else Inr source)"

text \<open>
  All of lines 89 to 126. After the two steps above a source that is still falsy raises
  \<open>ImproperlyConfigured\<close>; a string cannot be left over, it would fail at
  \<open>source._meta\<close>.
\<close>

definition resolve_source :: "env \<Rightarrow> string \<Rightarrow> class_attrs \<Rightarrow> error + model_class" where
  "resolve_source e name attrs =
     (case resolve_string e (attr_module attrs) (meta_source (attr_Meta attrs)) of
        Inl err \<Rightarrow> Inl err
      | Inr source1 \<Rightarrow>
          (case resolve_by_name e (attr_module attrs) name source1 of
             Inl err \<Rightarrow> Inl err
           | Inr source2 \<Rightarrow>
               (if \<not> src_truthy source2 then Inl ImproperlyConfigured
                else
                  (case source2 of
                     SrcClass c \<Rightarrow> Inr c
                   | _ \<Rightarrow> Inl AttributeError))))"

subsection \<open>Field selection and copying (lines 131 to 159)\<close>

definition default_fields :: "model_class \<Rightarrow> string list" where
  "default_fields source =
     map fname (filter (\<lambda>f. ftype f \<in> {TextField, CharField, SlugField}) (model_fields source))"

definition resolve_fields :: "meta \<Rightarrow> model_class \<Rightarrow> string list" where
  "resolve_fields m source =
     (let field_names = (case translation_fields m of None \<Rightarrow> [] | Some fs \<Rightarrow> fs)
      in if field_names = [] then default_fields source else field_names)"

text \<open>
  The copy loop runs over the source's fields; its state is the attribute dictionary and
  the list \<open>unique_fields\<close>.
\<close>

fun copy_fields ::
  "field list \<Rightarrow> string list \<Rightarrow> (string \<times> attr) list \<times> string list \<Rightarrow>
   (string \<times> attr) list \<times> string list" where
  "copy_fields [] field_names st = st"
| "copy_fields (f # rest) field_names (attrs, unique_fields) =
     (if fname f \<in> set field_names then
        (if funique f then
           copy_fields rest field_names
             (AList.update (fname f) (AField (f\<lparr>funique := False\<rparr>)) attrs,
              unique_fields @ [fname f])
         else
           copy_fields rest field_names (AList.update (fname f) (AField f) attrs, unique_fields))
      else copy_fields rest field_names (attrs, unique_fields))"

subsection \<open>The uniqueness constraints (lines 161 to 176)\<close>

text \<open>\<open>x[0]\<close> on a string or a tuple.\<close>

fun index0 :: "pyt \<Rightarrow> error + pyt" where
  "index0 (S []) = Inl IndexError"
| "index0 (S (c # cs)) = Inr (S [c])"
| "index0 (T []) = Inl IndexError"
| "index0 (T (x # xs)) = Inr x"

fun is_str :: "pyt \<Rightarrow> bool" where
  "is_str (S s) = True"
| "is_str (T xs) = False"

text \<open>\<open>x += (y1, ..., yn)\<close>: a tuple or list is extended, a string cannot be.\<close>

fun iadd :: "pyt \<Rightarrow> pyt list \<Rightarrow> error + pyt" where
  "iadd (T xs) ys = Inr (T (xs @ ys))"
| "iadd (S s) ys = Inl TypeError"

definition add_source_language :: "pyt option \<Rightarrow> error + pyt" where
  "add_source_language declared =
     (case declared of
        Some ut \<Rightarrow>
          (case index0 ut of
             Inl err \<Rightarrow> Inl err
           | Inr first \<Rightarrow>
               (if is_str first then
                  Inr (T [ut, T [S ''i18n_source'', S ''i18n_language'']])
                else iadd ut [S ''i18n_source'', S ''i18n_language'']))
      | None \<Rightarrow> Inr (T [T [S ''i18n_source'', S ''i18n_language'']]))"

fun add_unique_fields :: "string list \<Rightarrow> pyt \<Rightarrow> error + pyt" where
  "add_unique_fields [] ut = Inr ut"
| "add_unique_fields (f # rest) ut =
     (case iadd ut [T [S ''i18n_language'', S f]] of
        Inl err \<Rightarrow> Inl err
      | Inr ut' \<Rightarrow> add_unique_fields rest ut')"

text \<open>Lines 161 to 176 as a whole: the final value of \<open>Meta.unique_together\<close>.\<close>

definition add_unique_together :: "pyt option \<Rightarrow> string list \<Rightarrow> error + pyt" where
  "add_unique_together declared unique_fields =
     (case add_source_language declared of
        Inl err \<Rightarrow> Inl err
      | Inr ut \<Rightarrow> add_unique_fields unique_fields ut)"

subsection \<open>\<open>I18nBase.__new__\<close>\<close>

text \<open>
  \<open>bases\<close> is the list \<open>[b.__name__ for b in bases]\<close>. The result is the class body that
  is passed on to \<open>ModelBase.__new__\<close>. A body without an inner \<open>Meta\<close> class fails at
  \<open>del attrs['Meta'].source_model\<close> with a \<open>KeyError\<close>, which the \<open>except AttributeError\<close>
  around it does not catch.
\<close>

definition I18nBase_new ::
  "env \<Rightarrow> string \<Rightarrow> string list \<Rightarrow> class_attrs \<Rightarrow> error + class_attrs" where
  "I18nBase_new e name bases attrs =
     (if ''I18nModel'' \<notin> set bases then Inr attrs
      else
        (case attr_Meta attrs of
           None \<Rightarrow> Inl KeyError
         | Some m \<Rightarrow>
             (case resolve_source e name attrs of
                Inl err \<Rightarrow> Inl err
              | Inr source \<Rightarrow>
                  (let field_names = resolve_fields m source;
                       (members, unique_fields) =
                          copy_fields (model_fields source) field_names (attr_members attrs, [])
                   in
                     (case add_unique_together (unique_together m) unique_fields of
                        Inl err \<Rightarrow> Inl err
                      | Inr ut \<Rightarrow>
                          Inr (attrs
                            \<lparr>attr_Meta :=
                               Some (m\<lparr>source_model := None,
                                       translation_fields := None,
                                       unique_together := Some ut\<rparr>),
                             attr_members :=
                               AList.update ''i18n_source'' (AForeignKey source)
                                 members\<rparr>))))))"

section \<open>Rows, query sets and uniqueness constraints\<close>

text \<open>
  A row (and the model instance read from it) is a dictionary from attribute names to
  values; a table and a query set are lists of rows. The primary key of a row is its
  position in the table. \<open>setattr\<close> is the dictionary update.
\<close>

type_synonym row = "(string \<times> pyval) list"

definition qs_filter :: "string \<Rightarrow> pyval \<Rightarrow> row list \<Rightarrow> row list" where
  "qs_filter k v rows = filter (\<lambda>r. map_of r k = Some v) rows"

definition qs_get :: "string \<Rightarrow> pyval \<Rightarrow> row list \<Rightarrow> error + row" where
  "qs_get k v rows =
     (case qs_filter k v rows of
        [] \<Rightarrow> Inl DoesNotExist
      | [r] \<Rightarrow> Inr r
      | _ \<Rightarrow> Inl MultipleObjectsReturned)"

text \<open>
  A uniqueness constraint over the columns \<open>cols\<close> holds of a table when no two of its
  rows carry the same non-null values in all of \<open>cols\<close>.
\<close>

definition agree :: "string list \<Rightarrow> row \<Rightarrow> row \<Rightarrow> bool" where
  "agree cols r1 r2 = list_all (\<lambda>c. map_of r1 c \<noteq> None \<and> map_of r1 c = map_of r2 c) cols"

fun unique_ok :: "string list \<Rightarrow> row list \<Rightarrow> bool" where
  "unique_ok cols [] = True"
| "unique_ok cols (r # rs) = (\<not> list_ex (agree cols r) rs \<and> unique_ok cols rs)"

definition constraints_ok :: "string list list \<Rightarrow> row list \<Rightarrow> bool" where
  "constraints_ok uniques db = list_all (\<lambda>cols. unique_ok cols db) uniques"

section \<open>The manager \<open>I18nManager\<close>\<close>

text \<open>
  A manager method takes \<open>self\<close>, here the rows the manager ranges over. \<open>current\<close> is
  what \<open>get_language()\<close> returns. The accessors that \<open>__new__\<close> sets on the class are
  kept in a dictionary from attribute names to methods; the methods of the class body
  (\<open>lang\<close>, \<open>get_by_lang\<close>) and the inherited \<open>filter\<close> and \<open>get\<close> are the functions
  below.
\<close>

record settings =
  LANGUAGES :: "(string \<times> string) list"
  LANGUAGE_CODE :: string

definition create_language_method :: "string \<Rightarrow> row list \<Rightarrow> row list" where
  "create_language_method language_code =
     (\<lambda>self. qs_filter ''i18n_language'' (PStr language_code) self)"

definition lang :: "pyval \<Rightarrow> row list \<Rightarrow> pyval \<Rightarrow> row list" where
  "lang current self language_code =
     qs_filter ''i18n_language'' (py_or language_code current) self"

definition current_language :: "pyval \<Rightarrow> row list \<Rightarrow> row list" where
  "current_language current self = lang current self PNone"

definition get_by_lang :: "pyval \<Rightarrow> row list \<Rightarrow> pyval \<Rightarrow> error + row" where
  "get_by_lang current self language_code =
     qs_get ''i18n_language'' (py_or language_code current) self"

type_synonym namespace = "(string \<times> (row list \<Rightarrow> row list)) list"

definition I18nManager_new :: "settings \<Rightarrow> namespace \<Rightarrow> namespace" where
  "I18nManager_new st cls =
     fold (\<lambda>language c.
            (let language_code = fst language
             in AList.update (replace CHR ''-'' CHR ''_'' language_code)
                  (create_language_method language_code) c))
          (LANGUAGES st) cls"

section \<open>\<open>I18nModel.translate\<close>\<close>

text \<open>
  \<open>cls.objects.get(i18n_source=source, i18n_language=language)\<close> returns the one
  matching row with its primary key. \<open>save\<close> writes the instance back under its primary
  key and \<open>create\<close> appends a row; the table refuses a write that breaks one of the
  uniqueness constraints \<open>uniques\<close> it enforces. \<open>create\<close> is called with
  \<open>i18n_source\<close> and \<open>i18n_language\<close> as keywords next to \<open>**kwargs\<close>, so the call is a
  \<open>TypeError\<close> when \<open>kwargs\<close> names one of the two again.
\<close>

definition matches :: "pyval \<Rightarrow> pyval \<Rightarrow> row \<Rightarrow> bool" where
  "matches source language r =
     (map_of r ''i18n_source'' = Some source \<and> map_of r ''i18n_language'' = Some language)"

definition objects_get :: "row list \<Rightarrow> pyval \<Rightarrow> pyval \<Rightarrow> error + nat \<times> row" where
  "objects_get db source language =
     (case filter (\<lambda>pk. matches source language (db ! pk)) [0..<length db] of
        [] \<Rightarrow> Inl DoesNotExist
      | [pk] \<Rightarrow> Inr (pk, db ! pk)
      | _ \<Rightarrow> Inl MultipleObjectsReturned)"

definition save :: "string list list \<Rightarrow> row list \<Rightarrow> nat \<Rightarrow> row \<Rightarrow> error + row list" where
  "save uniques db pk r =
     (let db' = db[pk := r]
      in if constraints_ok uniques db' then Inr db' else Inl IntegrityError)"

definition objects_create ::
  "string list list \<Rightarrow> row list \<Rightarrow> pyval \<Rightarrow> pyval \<Rightarrow> row \<Rightarrow> error + row \<times> row list" where
  "objects_create uniques db source language kwargs =
     (if ''i18n_source'' \<in> fst ` set kwargs \<or> ''i18n_language'' \<in> fst ` set kwargs
      then Inl TypeError
      else
        (let r = (''i18n_source'', source) # (''i18n_language'', language) # kwargs;
             db' = db @ [r]
         in if constraints_ok uniques db' then Inr (r, db') else Inl IntegrityError))"

definition setattrs :: "row \<Rightarrow> row \<Rightarrow> row" where
  "setattrs kwargs translation =
     fold (\<lambda>(key, value) t. AList.update key value t) kwargs translation"

definition I18nModel_translate ::
  "string list list \<Rightarrow> row list \<Rightarrow> pyval \<Rightarrow> pyval \<Rightarrow> row \<Rightarrow> error + row \<times> row list" where
  "I18nModel_translate uniques db source language kwargs =
     (if kwargs = [] then
        (case objects_get db source language of
           Inl err \<Rightarrow> Inl err
         | Inr (pk, translation) \<Rightarrow> Inr (translation, db))
      else
        (case objects_get db source language of
           Inr (pk, translation) \<Rightarrow>
             (let translation' = setattrs kwargs translation
              in (case save uniques db pk translation' of
                    Inl err \<Rightarrow> Inl err
                  | Inr db' \<Rightarrow> Inr (translation', db')))
         | Inl DoesNotExist \<Rightarrow> objects_create uniques db source language kwargs
         | Inl err \<Rightarrow> Inl err))"

section \<open>The template tag \<open>translate\<close>\<close>

text \<open>
  An object carries its related manager \<open>translations\<close>, the translation rows that point
  to it; an object without that attribute raises \<open>AttributeError\<close> on the access. The tag
  returns the object it was given or a translation row.
\<close>

record obj =
  obj_pk :: pyval
  obj_translations :: "row list option"

datatype tag_result = Original obj | Translation row

definition templatetag_translate ::
  "settings \<Rightarrow> pyval \<Rightarrow> obj \<Rightarrow> pyval \<Rightarrow> error + tag_result" where
  "templatetag_translate st current ob language0 =
     (let language = py_or language0 current
      in if language = PStr (LANGUAGE_CODE st) then Inr (Original ob)
         else
           (case (case obj_translations ob of
                    None \<Rightarrow> Inl AttributeError
                  | Some translations \<Rightarrow> get_by_lang current translations language) of
              Inr t \<Rightarrow> Inr (Translation t)
            | Inl err \<Rightarrow> Inr (Original ob)))"

section \<open>The constraint set as the specification words it\<close>

text \<open>
  The specification's own recipe for the final constraint set, to be compared with what
  \<open>add_source_language\<close> and \<open>add_unique_fields\<close> compute: the declared constraints, a
  single tuple of names first made a list of that one tuple, then the constraint
  \<open>(i18n_source, i18n_language)\<close>, then \<open>(i18n_language, f)\<close> for every demoted field.
\<close>

definition spec_normalize :: "pyt option \<Rightarrow> pyt list" where
  "spec_normalize declared =
     (case declared of
        None \<Rightarrow> []
      | Some (S s) \<Rightarrow> [S s]
      | Some (T xs) \<Rightarrow> (if xs \<noteq> [] \<and> list_all is_str xs then [T xs] else xs))"

definition spec_unique_together :: "pyt option \<Rightarrow> string list \<Rightarrow> pyt" where
  "spec_unique_together declared demoted =
     T (spec_normalize declared
        @ [T [S ''i18n_source'', S ''i18n_language'']]
        @ map (\<lambda>f. T [S ''i18n_language'', S f]) demoted)"

section \<open>Worked examples\<close>

text \<open>
  A source model \<open>Foo\<close> of the module \<open>blog.models\<close> with a unique \<open>title\<close>, a \<open>body\<close>
  and a counter, the class body of a translation model next to it, the language settings
  of the specification's example, and a small translation table.
\<close>

definition Foo :: model_class where
  "Foo = \<lparr>model_name = ''Foo'',
          model_fields =
            [\<lparr>fname = ''title'', ftype = CharField, funique = True,
              foptions = [(''max_length'', PInt 100)]\<rparr>,
             \<lparr>fname = ''body'', ftype = TextField, funique = False, foptions = []\<rparr>,
             \<lparr>fname = ''views'', ftype = OtherField ''IntegerField'', funique = False,
              foptions = []\<rparr>]\<rparr>"

definition blog_env :: env where
  "blog_env = \<lparr>registry = [((''blog'', ''Foo''), Foo)],
               modules = [(''blog.models'', [(''Foo'', Foo)])]\<rparr>"

definition plain_meta :: meta where
  "plain_meta = \<lparr>source_model = None, translation_fields = None, unique_together = None\<rparr>"

definition body_with :: "meta \<Rightarrow> class_attrs" where
  "body_with m = \<lparr>attr_module = ''blog.models'', attr_Meta = Some m, attr_members = []\<rparr>"

definition example_settings :: settings where
  "example_settings =
     \<lparr>LANGUAGES = [(''en'', ''English''), (''de'', ''German''), (''pt-br'', ''Portuguese'')],
      LANGUAGE_CODE = ''en''\<rparr>"

definition example_db :: "row list" where
  "example_db =
     [[(''i18n_source'', PInt 1), (''i18n_language'', PStr ''de''), (''title'', PStr ''Hallo'')],
      [(''i18n_source'', PInt 1), (''i18n_language'', PStr ''pt-br''), (''title'', PStr ''Ola'')],
      [(''i18n_source'', PInt 2), (''i18n_language'', PStr ''de''), (''title'', PStr ''Welt'')]]"

definition example_uniques :: "string list list" where
  "example_uniques = [[''i18n_source'', ''i18n_language''], [''i18n_language'', ''title'']]"

definition example_obj :: obj where
  "example_obj = \<lparr>obj_pk = PInt 1,
     obj_translations = Some
       [[(''i18n_source'', PInt 1), (''i18n_language'', PStr ''de''), (''title'', PStr ''Hallo'')],
        [(''i18n_source'', PInt 1), (''i18n_language'', PStr ''pt-br''), (''title'', PStr ''Ola'')]]\<rparr>"

section \<open>Properties\<close>

subsection \<open>The copy loop and the constraint set\<close>

lemmas example_defs = I18nBase_new_def resolve_source_def resolve_string_def resolve_by_name_def
  meta_source_def get_model_def get_class_def endswith_def resolve_fields_def default_fields_def
  add_source_language_def add_unique_together_def Foo_def blog_env_def body_with_def plain_meta_def

lemma copy_fields_unique:
  "snd (copy_fields fs names (a, u)) =
     u @ map fname (filter (\<lambda>f. fname f \<in> set names \<and> funique f) fs)"
  by (induction fs arbitrary: a u) auto

lemma copy_fields_keys:
  "fst ` set (fst (copy_fields fs names (a, u))) =
     fst ` set a \<union> {n \<in> set names. n \<in> fname ` set fs}"
  by (induction fs arbitrary: a u) (auto simp: dom_update)

lemma copy_fields_other:
  "n \<notin> fname ` set fs \<or> n \<notin> set names \<Longrightarrow>
     map_of (fst (copy_fields fs names (a, u))) n = map_of a n"
  by (induction fs arbitrary: a u) (auto simp: update_conv')

lemma copy_fields_copy:
  "f \<in> set fs \<Longrightarrow> fname f \<in> set names \<Longrightarrow>
     \<exists>g \<in> set fs. fname g = fname f \<and>
        map_of (fst (copy_fields fs names (a, u))) (fname f) = Some (AField (g\<lparr>funique := False\<rparr>))"
proof (induction fs arbitrary: a u f)
  case Nil
  then show ?case by simp
next
  case (Cons x xs)
  show ?case
  proof (cases "\<exists>g \<in> set xs. fname g = fname f")
    case True
    then obtain g where g: "g \<in> set xs" "fname g = fname f" by blast
    with Cons.prems have "fname g \<in> set names" by simp
    from Cons.IH[OF g(1) this] g(2) show ?thesis
      by (cases "fname x \<in> set names"; cases "funique x") auto
  next
    case False
    with Cons.prems have fx: "f = x" by auto
    from False have nf: "fname f \<notin> fname ` set xs" by force
    have "x\<lparr>funique := False\<rparr> = x" if "\<not> funique x" using that by simp
    with fx nf Cons.prems(2) show ?thesis
      by (cases "funique x") (auto simp: copy_fields_other update_conv')
  qed
qed

lemma copy_fields_copy_distinct:
  assumes "f \<in> set fs" "fname f \<in> set names" "distinct (map fname fs)"
  shows "map_of (fst (copy_fields fs names (a, u))) (fname f) = Some (AField (f\<lparr>funique := False\<rparr>))"
proof -
  from copy_fields_copy[OF assms(1,2)] obtain g where
    g: "g \<in> set fs" "fname g = fname f"
       "map_of (fst (copy_fields fs names (a, u))) (fname f) = Some (AField (g\<lparr>funique := False\<rparr>))"
    by blast
  from assms(3) g(1,2) assms(1) have "g = f"
    by (meson distinct_map inj_onD)
  with g(3) show ?thesis by simp
qed

lemma copy_fields_cong:
  "(\<And>f. f \<in> set fs \<Longrightarrow> (fname f \<in> set names) = (fname f \<in> set names')) \<Longrightarrow>
     copy_fields fs names st = copy_fields fs names' st"
  by (induction fs names st rule: copy_fields.induct) auto

lemma add_unique_fields_T:
  "add_unique_fields us (T xs) = Inr (T (xs @ map (\<lambda>f. T [S ''i18n_language'', S f]) us))"
  by (induction us arbitrary: xs) auto

lemma add_source_language_Inr:
  "add_source_language d = Inr ut \<Longrightarrow> \<exists>xs. ut = T xs"
  by (auto simp: add_source_language_def split: option.splits sum.splits if_splits
           elim: iadd.elims)

lemma add_unique_together_Inr:
  assumes "add_unique_together d us = Inr ut"
  shows "\<exists>xs. add_source_language d = Inr (T xs) \<and>
           ut = T (xs @ map (\<lambda>f. T [S ''i18n_language'', S f]) us)"
proof -
  from assms obtain ut0 where a: "add_source_language d = Inr ut0"
    and b: "add_unique_fields us ut0 = Inr ut"
    by (auto simp: add_unique_together_def split: sum.splits)
  from add_source_language_Inr[OF a] obtain xs where "ut0 = T xs" by blast
  with a b show ?thesis by (simp add: add_unique_fields_T)
qed

lemma I18nBase_new_Inr:
  assumes "I18nBase_new e name bases attrs = Inr res" "''I18nModel'' \<in> set bases"
  obtains m source ut where
    "attr_Meta attrs = Some m"
    "resolve_source e name attrs = Inr source"
    "add_unique_together (unique_together m)
        (snd (copy_fields (model_fields source) (resolve_fields m source) (attr_members attrs, []))) = Inr ut"
    "res = attrs\<lparr>attr_Meta := Some (m\<lparr>source_model := None, translation_fields := None,
                                        unique_together := Some ut\<rparr>),
                 attr_members := AList.update ''i18n_source'' (AForeignKey source)
                    (fst (copy_fields (model_fields source) (resolve_fields m source) (attr_members attrs, [])))\<rparr>"
  using assms
  by (auto simp: I18nBase_new_def Let_def split: option.splits sum.splits prod.splits)

lemma add_unique_together_absent:
  "add_unique_together None us = Inr (spec_unique_together None us)"
  by (simp add: add_unique_together_def add_source_language_def add_unique_fields_T
      spec_unique_together_def spec_normalize_def)

lemma add_unique_together_single_tuple:
  assumes "list_all is_str (x # xs)"
  shows "add_unique_together (Some (T (x # xs))) us = Inr (spec_unique_together (Some (T (x # xs))) us)"
  using assms
  by (simp add: add_unique_together_def add_source_language_def add_unique_fields_T
      spec_unique_together_def spec_normalize_def)

lemma add_unique_together_tuple_list:
  assumes "\<not> is_str x"
  shows "add_unique_together (Some (T (x # xs))) us =
     Inr (T (x # xs @ [S ''i18n_source'', S ''i18n_language'']
            @ map (\<lambda>f. T [S ''i18n_language'', S f]) us))"
  using assms
  by (simp add: add_unique_together_def add_source_language_def add_unique_fields_T)

lemma split_on_nonempty: "split_on c s \<noteq> []"
  by (induction s) (auto split: list.splits)

lemma split_on_two: "c \<in> set s \<Longrightarrow> \<exists>a b rest. split_on c s = a # b # rest"
proof (induction s)
  case Nil
  then show ?case by simp
next
  case (Cons x xs)
  show ?case
  proof (cases "x = c")
    case True
    then show ?thesis using split_on_nonempty[of c xs] by (cases "split_on c xs") auto
  next
    case False
    with Cons.prems have "c \<in> set xs" by simp
    from Cons.IH[OF this] False show ?thesis by auto
  qed
qed

lemma dotted_source_not_found:
  assumes "''I18nModel'' \<in> set bases" "attr_Meta attrs = Some m"
    "source_model m = Some (SrcStr s)" "CHR ''.'' \<in> set s"
    "split_on CHR ''.'' s = a # b # rest" "get_model e a b = None"
    "\<not> endswith name ''I18N''"
  shows "I18nBase_new e name bases attrs = Inl ImproperlyConfigured"
proof -
  from assms(4) have "s \<noteq> []" by auto
  with assms show ?thesis
    by (simp add: I18nBase_new_def resolve_source_def resolve_string_def resolve_by_name_def
        meta_source_def)
qed

text \<open>
  Claim C1: the derived schema always contains the constraint
  \<open>(i18n_source, i18n_language)\<close>, so that at most one translation row exists per source and
  language. The two lemmas \<open>add_unique_together_absent\<close> and
  \<open>add_unique_together_single_tuple\<close> give this for a \<open>Meta\<close> without \<open>unique_together\<close> and
  for one whose \<open>unique_together\<close> is a single tuple of names. For a \<open>Meta\<close> that declares a
  tuple of tuples, line 168 extends it by the two strings \<open>'i18n_source'\<close> and
  \<open>'i18n_language'\<close> instead of by their pair: for \<open>unique_together = (('title', 'body'),)\<close>
  the class body passed on is the one below, and the pair is not among its constraints.
\<close>

theorem source_language_pair_missing:
  "I18nBase_new blog_env ''FooI18N'' [''I18nModel'']
     (body_with (plain_meta\<lparr>unique_together := Some (T [T [S ''title'', S ''body'']])\<rparr>))
   = Inr \<lparr>attr_module = ''blog.models'',
          attr_Meta = Some \<lparr>source_model = None, translation_fields = None,
             unique_together =
               Some (T [T [S ''title'', S ''body''], S ''i18n_source'', S ''i18n_language'',
                        T [S ''i18n_language'', S ''title'']])\<rparr>,
          attr_members =
            [(''title'', AField \<lparr>fname = ''title'', ftype = CharField, funique = False,
                                 foptions = [(''max_length'', PInt 100)]\<rparr>),
             (''body'', AField \<lparr>fname = ''body'', ftype = TextField, funique = False,
                                foptions = []\<rparr>),
             (''i18n_source'', AForeignKey Foo)]\<rparr>
   \<and> T [S ''i18n_source'', S ''i18n_language'']
       \<notin> set [T [S ''title'', S ''body''], S ''i18n_source'', S ''i18n_language'',
                T [S ''i18n_language'', S ''title'']]"
  by (simp add: example_defs)

text \<open>
  Claim C2: the final constraint set is the declared constraints (a single tuple of names
  made a list of that tuple), then the pair \<open>(i18n_source, i18n_language)\<close> as one
  constraint, then \<open>(i18n_language, f)\<close> for every demoted field \<open>f\<close>; in particular when the
  type declares its own list of constraint tuples. At \<open>(('title', 'body'),)\<close> with the demoted
  field \<open>title\<close> the code and the specification's recipe differ: the code yields two loose
  strings where the recipe has the pair.
\<close>

theorem declared_constraints_lose_pair:
  "add_unique_together (Some (T [T [S ''title'', S ''body'']])) [''title'']
     = Inr (T [T [S ''title'', S ''body''], S ''i18n_source'', S ''i18n_language'',
               T [S ''i18n_language'', S ''title'']])
   \<and> spec_unique_together (Some (T [T [S ''title'', S ''body'']])) [''title'']
     = T [T [S ''title'', S ''body''], T [S ''i18n_source'', S ''i18n_language''],
          T [S ''i18n_language'', S ''title'']]"
  by (simp add: add_unique_together_def add_source_language_def spec_unique_together_def
      spec_normalize_def)

subsection \<open>Uniqueness constraints on a table\<close>

lemma unique_ok_nth:
  "unique_ok cols db \<Longrightarrow> i < j \<Longrightarrow> j < length db \<Longrightarrow> \<not> agree cols (db ! i) (db ! j)"
proof (induction db arbitrary: i j)
  case Nil
  then show ?case by simp
next
  case (Cons r rs)
  show ?case
  proof (cases i)
    case 0
    with Cons.prems obtain j' where j: "j = Suc j'" "j' < length rs" by (cases j) auto
    with Cons.prems(1) 0 show ?thesis by (auto simp: list_ex_iff)
  next
    case (Suc i')
    with Cons.prems obtain j' where j: "j = Suc j'" "j' < length rs" "i' < j'" by (cases j) auto
    with Cons.prems(1) Cons.IH[of i' j'] Suc show ?thesis by simp
  qed
qed

lemma unique_ok_pair:
  "c \<in> set cols \<Longrightarrow> map_of r1 c \<noteq> map_of r2 c \<Longrightarrow> unique_ok cols [r1, r2]"
  by (auto simp: agree_def list_all_iff)

text \<open>
  Claim C3: for every copied field \<open>f\<close> that is unique on the source, the deriver clears the
  uniqueness flag on the copy and appends the constraint \<open>(i18n_language, f)\<close>. So within one
  language the values of \<open>f\<close> stay unique among translation rows, while two rows in different
  languages may share a value. The copy is read from the class body that is passed on, under
  the field's name; the deriver stores its foreign key under \<open>i18n_source\<close> afterwards, and
  the copy is the field itself with the flag cleared when the source's field names are
  distinct.
\<close>

theorem unique_field_demoted:
  assumes new: "I18nBase_new e name bases attrs = Inr res"
    and base: "''I18nModel'' \<in> set bases"
    and src: "resolve_source e name attrs = Inr source"
    and meta: "attr_Meta attrs = Some m"
    and f: "f \<in> set (model_fields source)" "fname f \<in> set (resolve_fields m source)"
    and u: "funique f"
  shows "(\<exists>m' xs. attr_Meta res = Some m' \<and> unique_together m' = Some (T xs)
            \<and> T [S ''i18n_language'', S (fname f)] \<in> set xs)
       \<and> (fname f \<noteq> ''i18n_source'' \<longrightarrow>
            (\<exists>g. map_of (attr_members res) (fname f) = Some (AField g)
                \<and> fname g = fname f \<and> \<not> funique g))
       \<and> (fname f \<noteq> ''i18n_source'' \<and> distinct (map fname (model_fields source)) \<longrightarrow>
            map_of (attr_members res) (fname f) = Some (AField (f\<lparr>funique := False\<rparr>)))
       \<and> (\<forall>db i j. unique_ok [''i18n_language'', fname f] db \<and> i < j \<and> j < length db
              \<and> map_of (db ! i) ''i18n_language'' \<noteq> None
              \<and> map_of (db ! i) ''i18n_language'' = map_of (db ! j) ''i18n_language''
              \<and> map_of (db ! i) (fname f) \<noteq> None \<longrightarrow>
            map_of (db ! i) (fname f) \<noteq> map_of (db ! j) (fname f))
       \<and> (\<forall>r1 r2. map_of r1 ''i18n_language'' \<noteq> map_of r2 ''i18n_language'' \<longrightarrow>
            unique_ok [''i18n_language'', fname f] [r1, r2])"
proof -
  from new base obtain m0 source0 ut where
    m0: "attr_Meta attrs = Some m0" and s0: "resolve_source e name attrs = Inr source0"
    and ut: "add_unique_together (unique_together m0)
        (snd (copy_fields (model_fields source0) (resolve_fields m0 source0) (attr_members attrs, []))) = Inr ut"
    and res: "res = attrs\<lparr>attr_Meta := Some (m0\<lparr>source_model := None, translation_fields := None,
                                        unique_together := Some ut\<rparr>),
                 attr_members := AList.update ''i18n_source'' (AForeignKey source0)
                    (fst (copy_fields (model_fields source0) (resolve_fields m0 source0) (attr_members attrs, [])))\<rparr>"
    by (rule I18nBase_new_Inr)
  from m0 meta s0 src have eq: "m0 = m" "source0 = source" by simp_all
  let ?cp = "copy_fields (model_fields source) (resolve_fields m source) (attr_members attrs, [])"
  from add_unique_together_Inr[OF ut] obtain xs where
    utx: "ut = T (xs @ map (\<lambda>f. T [S ''i18n_language'', S f]) (snd ?cp))"
    by (auto simp: eq)
  have "fname f \<in> set (snd ?cp)" using f u by (auto simp: copy_fields_unique)
  then have c1: "T [S ''i18n_language'', S (fname f)]
         \<in> set (xs @ map (\<lambda>f. T [S ''i18n_language'', S f]) (snd ?cp))" by auto
  have A: "\<exists>m' xs. attr_Meta res = Some m' \<and> unique_together m' = Some (T xs)
            \<and> T [S ''i18n_language'', S (fname f)] \<in> set xs"
    using c1 by (simp add: res utx)
  from copy_fields_copy[OF f, of "attr_members attrs" "[]"] obtain g where
    g: "g \<in> set (model_fields source)" "fname g = fname f"
       "map_of (fst ?cp) (fname f) = Some (AField (g\<lparr>funique := False\<rparr>))" by blast
  have B: "fname f \<noteq> ''i18n_source'' \<longrightarrow>
            (\<exists>g. map_of (attr_members res) (fname f) = Some (AField g)
                \<and> fname g = fname f \<and> \<not> funique g)"
    using g by (auto simp: res eq update_conv')
  have C: "fname f \<noteq> ''i18n_source'' \<and> distinct (map fname (model_fields source)) \<longrightarrow>
            map_of (attr_members res) (fname f) = Some (AField (f\<lparr>funique := False\<rparr>))"
    using copy_fields_copy_distinct[OF f, of "attr_members attrs" "[]"]
    by (auto simp: res eq update_conv')
  have D: "\<forall>db i j. unique_ok [''i18n_language'', fname f] db \<and> i < j \<and> j < length db
              \<and> map_of (db ! i) ''i18n_language'' \<noteq> None
              \<and> map_of (db ! i) ''i18n_language'' = map_of (db ! j) ''i18n_language''
              \<and> map_of (db ! i) (fname f) \<noteq> None \<longrightarrow>
            map_of (db ! i) (fname f) \<noteq> map_of (db ! j) (fname f)"
  proof (intro allI impI, elim conjE)
    fix db :: "row list" and i j
    assume a: "unique_ok [''i18n_language'', fname f] db" "i < j" "j < length db"
      "map_of (db ! i) ''i18n_language'' \<noteq> None"
      "map_of (db ! i) ''i18n_language'' = map_of (db ! j) ''i18n_language''"
      "map_of (db ! i) (fname f) \<noteq> None"
    from unique_ok_nth[OF a(1,2,3)] a(4,5,6)
    show "map_of (db ! i) (fname f) \<noteq> map_of (db ! j) (fname f)"
      by (auto simp: agree_def)
  qed
  have E: "\<forall>r1 r2. map_of r1 ''i18n_language'' \<noteq> map_of r2 ''i18n_language'' \<longrightarrow>
            unique_ok [''i18n_language'', fname f] [r1, r2]"
    by (simp add: agree_def)
  from A B C D E show ?thesis by blast
qed

theorem unique_field_demoted_witness:
  "\<exists>res m' xs. I18nBase_new blog_env ''FooI18N'' [''I18nModel''] (body_with plain_meta) = Inr res
     \<and> attr_Meta res = Some m' \<and> unique_together m' = Some (T xs)
     \<and> T [S ''i18n_language'', S ''title''] \<in> set xs
     \<and> map_of (attr_members res) ''title''
         = Some (AField \<lparr>fname = ''title'', ftype = CharField, funique = False,
                          foptions = [(''max_length'', PInt 100)]\<rparr>)"
proof -
  let ?f = "\<lparr>fname = ''title'', ftype = CharField, funique = True,
              foptions = [(''max_length'', PInt 100)]\<rparr>"
  obtain res where new: "I18nBase_new blog_env ''FooI18N'' [''I18nModel''] (body_with plain_meta) = Inr res"
    by (simp add: example_defs)
  have base: "''I18nModel'' \<in> set [''I18nModel'']" by simp
  have src: "resolve_source blog_env ''FooI18N'' (body_with plain_meta) = Inr Foo"
    by (simp add: example_defs)
  have meta: "attr_Meta (body_with plain_meta) = Some plain_meta" by (simp add: body_with_def)
  have f1: "?f \<in> set (model_fields Foo)" by (simp add: Foo_def)
  have f2: "fname ?f \<in> set (resolve_fields plain_meta Foo)" by (simp add: example_defs)
  have u: "funique ?f" by simp
  have d: "fname ?f \<noteq> ''i18n_source'' \<and> distinct (map fname (model_fields Foo))"
    by (simp add: Foo_def)
  from unique_field_demoted[OF new base src meta f1 f2 u] d new
  show ?thesis by auto
qed

subsection \<open>Explicit translation fields\<close>

lemma resolve_source_fields_irrelevant:
  "resolve_source e name (attrs\<lparr>attr_Meta := Some (m\<lparr>translation_fields := x\<rparr>)\<rparr>)
     = resolve_source e name (attrs\<lparr>attr_Meta := Some m\<rparr>)"
  by (simp add: resolve_source_def meta_source_def cong: sum.case_cong)

lemma update_fresh: "k \<notin> fst ` set al \<Longrightarrow> AList.update k v al = al @ [(k, v)]"
  by (induction al) auto

lemma copy_fields_in_order:
  assumes "distinct (map fname flds)" "fname ` set flds \<inter> fst ` set a = {}"
  shows "fst (copy_fields flds names (a, u)) =
     a @ map (\<lambda>f. (fname f, AField (f\<lparr>funique := False\<rparr>)))
           (filter (\<lambda>f. fname f \<in> set names) flds)"
  using assms
proof (induction flds arbitrary: a u)
  case Nil
  then show ?case by simp
next
  case (Cons f rest)
  show ?case
  proof (cases "fname f \<in> set names")
    case False
    with Cons show ?thesis by auto
  next
    case True
    let ?v = "AField (f\<lparr>funique := False\<rparr>)"
    from Cons.prems(2) have fresh: "fname f \<notin> fst ` set a" by auto
    have d: "distinct (map fname rest)" using Cons.prems(1) by simp
    have dj: "fname ` set rest \<inter> fst ` set (a @ [(fname f, ?v)]) = {}"
      using Cons.prems by auto
    have step: "fst (copy_fields (f # rest) names (a, u)) =
        fst (copy_fields rest names (a @ [(fname f, ?v)], if funique f then u @ [fname f] else u))"
    proof (cases "funique f")
      case True
      with \<open>fname f \<in> set names\<close> show ?thesis by (simp add: update_fresh[OF fresh])
    next
      case False
      then have e: "f\<lparr>funique := False\<rparr> = f" by simp
      from False \<open>fname f \<in> set names\<close> show ?thesis
        by (simp add: update_fresh[OF fresh] e)
    qed
    show ?thesis
      unfolding step using True by (simp add: Cons.IH[OF d dj])
  qed
qed

text \<open>
  Claim C6 says that an explicit non-empty \<open>translation_fields\<close> list is used exactly, in the
  order given, and that a listed name absent from the source type is a configuration error.
  The deriver only tests \<open>field.name in fields\<close> while it runs over the source's fields:
  with the list \<open>('body', 'subtitle', 'title')\<close> on \<open>Foo\<close>, which has no \<open>subtitle\<close>, it returns
  a class body, with \<open>title\<close> copied before \<open>body\<close>.
\<close>

theorem absent_field_name_counterexample:
  "I18nBase_new blog_env ''FooI18N'' [''I18nModel'']
     (body_with (plain_meta\<lparr>translation_fields := Some [''body'', ''subtitle'', ''title'']\<rparr>))
   = Inr \<lparr>attr_module = ''blog.models'',
          attr_Meta = Some \<lparr>source_model = None, translation_fields = None,
             unique_together =
               Some (T [T [S ''i18n_source'', S ''i18n_language''],
                        T [S ''i18n_language'', S ''title'']])\<rparr>,
          attr_members =
            [(''title'', AField \<lparr>fname = ''title'', ftype = CharField, funique = False,
                                 foptions = [(''max_length'', PInt 100)]\<rparr>),
             (''body'', AField \<lparr>fname = ''body'', ftype = TextField, funique = False,
                                foptions = []\<rparr>),
             (''i18n_source'', AForeignKey Foo)]\<rparr>"
  by (simp add: example_defs)

text \<open>
  Claim C6 as amended: with an explicit non-empty \<open>translation_fields\<close> list the deriver
  copies exactly those fields of the source whose names are in the list. Each of them is
  stored under its name as a copy with the uniqueness flag cleared, \<open>i18n_source\<close> receives
  the foreign key, and every other entry of the class body is left as it was. The list is
  used for membership only: the fields are visited in the source's declaration order, so the
  copies and the constraints \<open>(i18n_language, f)\<close> of the demoted fields come in that order,
  whatever the order of the list; a list with the same names of the source in it gives the
  same result; and a listed name that is absent from the source is ignored without an
  error: once the source is resolved the deriver raises only what the declared
  \<open>unique_together\<close> makes it raise, never \<open>ImproperlyConfigured\<close>.
\<close>

theorem translation_fields_by_membership:
  assumes base: "''I18nModel'' \<in> set bases"
    and meta: "attr_Meta attrs = Some m"
    and tf: "translation_fields m = Some fs" and ne: "fs \<noteq> []"
    and src: "resolve_source e name attrs = Inr source"
  shows "(\<forall>res. I18nBase_new e name bases attrs = Inr res \<longrightarrow>
            fst ` set (attr_members res) =
              fst ` set (attr_members attrs)
              \<union> {n \<in> set fs. n \<in> fname ` set (model_fields source)} \<union> {''i18n_source''}
          \<and> (\<forall>f \<in> set (model_fields source).
                fname f \<in> set fs \<and> fname f \<noteq> ''i18n_source'' \<longrightarrow>
                (\<exists>g \<in> set (model_fields source). fname g = fname f \<and>
                   map_of (attr_members res) (fname f) = Some (AField (g\<lparr>funique := False\<rparr>))))
          \<and> (distinct (map fname (model_fields source)) \<longrightarrow>
               (\<forall>f \<in> set (model_fields source).
                  fname f \<in> set fs \<and> fname f \<noteq> ''i18n_source'' \<longrightarrow>
                  map_of (attr_members res) (fname f) = Some (AField (f\<lparr>funique := False\<rparr>))))
          \<and> (\<forall>n. n \<noteq> ''i18n_source'' \<and> (n \<notin> set fs \<or> n \<notin> fname ` set (model_fields source)) \<longrightarrow>
                map_of (attr_members res) n = map_of (attr_members attrs) n)
          \<and> map_of (attr_members res) ''i18n_source'' = Some (AForeignKey source)
          \<and> (distinct (map fname (model_fields source))
               \<and> fname ` set (model_fields source) \<inter> fst ` set (attr_members attrs) = {}
               \<and> ''i18n_source'' \<notin> fname ` set (model_fields source)
               \<and> ''i18n_source'' \<notin> fst ` set (attr_members attrs) \<longrightarrow>
              attr_members res =
                attr_members attrs
                @ map (\<lambda>f. (fname f, AField (f\<lparr>funique := False\<rparr>)))
                    (filter (\<lambda>f. fname f \<in> set fs) (model_fields source))
                @ [(''i18n_source'', AForeignKey source)])
          \<and> (\<exists>m' xs. attr_Meta res = Some m'
                \<and> add_source_language (unique_together m) = Inr (T xs)
                \<and> unique_together m' =
                    Some (T (xs @ map (\<lambda>f. T [S ''i18n_language'', S (fname f)])
                                  (filter (\<lambda>f. fname f \<in> set fs \<and> funique f)
                                     (model_fields source))))))
       \<and> (\<forall>fs'. fs' \<noteq> [] \<and> (\<forall>n \<in> fname ` set (model_fields source). (n \<in> set fs') = (n \<in> set fs)) \<longrightarrow>
            I18nBase_new e name bases (attrs\<lparr>attr_Meta := Some (m\<lparr>translation_fields := Some fs'\<rparr>)\<rparr>)
              = I18nBase_new e name bases attrs)
       \<and> I18nBase_new e name bases attrs \<noteq> Inl ImproperlyConfigured
       \<and> (\<forall>err. I18nBase_new e name bases attrs = Inl err \<longrightarrow>
            add_source_language (unique_together m) = Inl err)"
proof -
  have rf: "resolve_fields m source = fs" using tf ne by (simp add: resolve_fields_def)
  let ?cp = "copy_fields (model_fields source) fs (attr_members attrs, [])"
  have A: "fst ` set (attr_members res) =
              fst ` set (attr_members attrs)
              \<union> {n \<in> set fs. n \<in> fname ` set (model_fields source)} \<union> {''i18n_source''}
          \<and> (\<forall>f \<in> set (model_fields source).
                fname f \<in> set fs \<and> fname f \<noteq> ''i18n_source'' \<longrightarrow>
                (\<exists>g \<in> set (model_fields source). fname g = fname f \<and>
                   map_of (attr_members res) (fname f) = Some (AField (g\<lparr>funique := False\<rparr>))))
          \<and> (distinct (map fname (model_fields source)) \<longrightarrow>
               (\<forall>f \<in> set (model_fields source).
                  fname f \<in> set fs \<and> fname f \<noteq> ''i18n_source'' \<longrightarrow>
                  map_of (attr_members res) (fname f) = Some (AField (f\<lparr>funique := False\<rparr>))))
          \<and> (\<forall>n. n \<noteq> ''i18n_source'' \<and> (n \<notin> set fs \<or> n \<notin> fname ` set (model_fields source)) \<longrightarrow>
                map_of (attr_members res) n = map_of (attr_members attrs) n)
          \<and> map_of (attr_members res) ''i18n_source'' = Some (AForeignKey source)
          \<and> (distinct (map fname (model_fields source))
               \<and> fname ` set (model_fields source) \<inter> fst ` set (attr_members attrs) = {}
               \<and> ''i18n_source'' \<notin> fname ` set (model_fields source)
               \<and> ''i18n_source'' \<notin> fst ` set (attr_members attrs) \<longrightarrow>
              attr_members res =
                attr_members attrs
                @ map (\<lambda>f. (fname f, AField (f\<lparr>funique := False\<rparr>)))
                    (filter (\<lambda>f. fname f \<in> set fs) (model_fields source))
                @ [(''i18n_source'', AForeignKey source)])
          \<and> (\<exists>m' xs. attr_Meta res = Some m'
                \<and> add_source_language (unique_together m) = Inr (T xs)
                \<and> unique_together m' =
                    Some (T (xs @ map (\<lambda>f. T [S ''i18n_language'', S (fname f)])
                                  (filter (\<lambda>f. fname f \<in> set fs \<and> funique f)
                                     (model_fields source)))))"
    if new: "I18nBase_new e name bases attrs = Inr res" for res
  proof -
    from new base obtain m0 source0 ut where
      m0: "attr_Meta attrs = Some m0" and s0: "resolve_source e name attrs = Inr source0"
      and ut0: "add_unique_together (unique_together m0)
        (snd (copy_fields (model_fields source0) (resolve_fields m0 source0) (attr_members attrs, []))) = Inr ut"
      and res0: "res = attrs\<lparr>attr_Meta := Some (m0\<lparr>source_model := None, translation_fields := None,
                                        unique_together := Some ut\<rparr>),
                 attr_members := AList.update ''i18n_source'' (AForeignKey source0)
                    (fst (copy_fields (model_fields source0) (resolve_fields m0 source0) (attr_members attrs, [])))\<rparr>"
      by (rule I18nBase_new_Inr)
    from m0 s0 meta src have eq: "m0 = m" "source0 = source" by simp_all
    have mem: "attr_members res = AList.update ''i18n_source'' (AForeignKey source) (fst ?cp)"
      by (simp add: res0 eq rf)
    have ut: "add_unique_together (unique_together m) (snd ?cp) = Inr ut"
      using ut0 by (simp add: eq rf)
    have a1: "fst ` set (attr_members res) =
              fst ` set (attr_members attrs)
              \<union> {n \<in> set fs. n \<in> fname ` set (model_fields source)} \<union> {''i18n_source''}"
      by (auto simp: mem dom_update copy_fields_keys)
    have a2: "\<forall>f \<in> set (model_fields source).
                fname f \<in> set fs \<and> fname f \<noteq> ''i18n_source'' \<longrightarrow>
                (\<exists>g \<in> set (model_fields source). fname g = fname f \<and>
                   map_of (attr_members res) (fname f) = Some (AField (g\<lparr>funique := False\<rparr>)))"
    proof (intro ballI impI, elim conjE)
      fix f assume f: "f \<in> set (model_fields source)" "fname f \<in> set fs"
        and n: "fname f \<noteq> ''i18n_source''"
      from copy_fields_copy[OF f, of "attr_members attrs" "[]"] n
      show "\<exists>g \<in> set (model_fields source). fname g = fname f \<and>
                   map_of (attr_members res) (fname f) = Some (AField (g\<lparr>funique := False\<rparr>))"
        by (simp add: mem update_conv')
    qed
    have a3: "distinct (map fname (model_fields source)) \<longrightarrow>
               (\<forall>f \<in> set (model_fields source).
                  fname f \<in> set fs \<and> fname f \<noteq> ''i18n_source'' \<longrightarrow>
                  map_of (attr_members res) (fname f) = Some (AField (f\<lparr>funique := False\<rparr>)))"
    proof (intro ballI impI, elim conjE)
      fix f assume d: "distinct (map fname (model_fields source))"
        and f: "f \<in> set (model_fields source)" "fname f \<in> set fs"
        and n: "fname f \<noteq> ''i18n_source''"
      from copy_fields_copy_distinct[OF f d, of "attr_members attrs" "[]"] n
      show "map_of (attr_members res) (fname f) = Some (AField (f\<lparr>funique := False\<rparr>))"
        by (simp add: mem update_conv')
    qed
    have a4: "\<forall>n. n \<noteq> ''i18n_source'' \<and> (n \<notin> set fs \<or> n \<notin> fname ` set (model_fields source)) \<longrightarrow>
                map_of (attr_members res) n = map_of (attr_members attrs) n"
    proof (intro allI impI, elim conjE)
      fix n assume n: "n \<noteq> ''i18n_source''"
        and o: "n \<notin> set fs \<or> n \<notin> fname ` set (model_fields source)"
      from o have "n \<notin> fname ` set (model_fields source) \<or> n \<notin> set fs" by blast
      from copy_fields_other[OF this, of "attr_members attrs" "[]"] n
      show "map_of (attr_members res) n = map_of (attr_members attrs) n"
        by (simp add: mem update_conv')
    qed
    have a5: "map_of (attr_members res) ''i18n_source'' = Some (AForeignKey source)"
      by (simp add: mem update_conv')
    have a6: "distinct (map fname (model_fields source))
               \<and> fname ` set (model_fields source) \<inter> fst ` set (attr_members attrs) = {}
               \<and> ''i18n_source'' \<notin> fname ` set (model_fields source)
               \<and> ''i18n_source'' \<notin> fst ` set (attr_members attrs) \<longrightarrow>
              attr_members res =
                attr_members attrs
                @ map (\<lambda>f. (fname f, AField (f\<lparr>funique := False\<rparr>)))
                    (filter (\<lambda>f. fname f \<in> set fs) (model_fields source))
                @ [(''i18n_source'', AForeignKey source)]"
    proof (intro impI, elim conjE)
      assume d: "distinct (map fname (model_fields source))"
        and dj: "fname ` set (model_fields source) \<inter> fst ` set (attr_members attrs) = {}"
        and s1: "''i18n_source'' \<notin> fname ` set (model_fields source)"
        and s2: "''i18n_source'' \<notin> fst ` set (attr_members attrs)"
      have "''i18n_source'' \<notin> fst ` set (fst ?cp)"
        using s1 s2 by (auto simp: copy_fields_keys)
      from update_fresh[OF this] copy_fields_in_order[OF d dj, of fs "[]"]
      show "attr_members res =
                attr_members attrs
                @ map (\<lambda>f. (fname f, AField (f\<lparr>funique := False\<rparr>)))
                    (filter (\<lambda>f. fname f \<in> set fs) (model_fields source))
                @ [(''i18n_source'', AForeignKey source)]"
        by (simp add: mem)
    qed
    from add_unique_together_Inr[OF ut] obtain xs where
      xs: "add_source_language (unique_together m) = Inr (T xs)"
      "ut = T (xs @ map (\<lambda>f. T [S ''i18n_language'', S f]) (snd ?cp))" by blast
    have a7: "\<exists>m' xs. attr_Meta res = Some m'
                \<and> add_source_language (unique_together m) = Inr (T xs)
                \<and> unique_together m' =
                    Some (T (xs @ map (\<lambda>f. T [S ''i18n_language'', S (fname f)])
                                  (filter (\<lambda>f. fname f \<in> set fs \<and> funique f)
                                     (model_fields source))))"
      using xs by (simp add: res0 eq copy_fields_unique comp_def)
    from a1 a2 a3 a4 a5 a6 a7 show ?thesis by blast
  qed
  have B: "\<forall>fs'. fs' \<noteq> [] \<and> (\<forall>n \<in> fname ` set (model_fields source). (n \<in> set fs') = (n \<in> set fs)) \<longrightarrow>
            I18nBase_new e name bases (attrs\<lparr>attr_Meta := Some (m\<lparr>translation_fields := Some fs'\<rparr>)\<rparr>)
              = I18nBase_new e name bases attrs"
  proof (intro allI impI, elim conjE)
    fix fs' assume n': "fs' \<noteq> []"
      and same: "\<forall>n \<in> fname ` set (model_fields source). (n \<in> set fs') = (n \<in> set fs)"
    have a: "attrs\<lparr>attr_Meta := Some m\<rparr> = attrs" using meta by simp
    have s': "resolve_source e name (attrs\<lparr>attr_Meta := Some (m\<lparr>translation_fields := Some fs'\<rparr>)\<rparr>)
                = Inr source"
      using src by (simp add: resolve_source_fields_irrelevant a)
    have rf': "resolve_fields (m\<lparr>translation_fields := Some fs'\<rparr>) source = fs'"
      using n' by (simp add: resolve_fields_def)
    have cp: "copy_fields (model_fields source) fs' st = copy_fields (model_fields source) fs st" for st
      using same by (intro copy_fields_cong) auto
    show "I18nBase_new e name bases (attrs\<lparr>attr_Meta := Some (m\<lparr>translation_fields := Some fs'\<rparr>)\<rparr>)
              = I18nBase_new e name bases attrs"
      using base meta src
      by (simp add: I18nBase_new_def s' rf rf' cp Let_def split: prod.splits sum.splits)
  qed
  have D: "\<forall>err. I18nBase_new e name bases attrs = Inl err \<longrightarrow>
            add_source_language (unique_together m) = Inl err"
  proof (intro allI impI)
    fix err assume "I18nBase_new e name bases attrs = Inl err"
    with base meta src rf have u: "add_unique_together (unique_together m) (snd ?cp) = Inl err"
      by (auto simp: I18nBase_new_def Let_def split: prod.splits sum.splits)
    show "add_source_language (unique_together m) = Inl err"
    proof (cases "add_source_language (unique_together m)")
      case (Inl e')
      with u show ?thesis by (simp add: add_unique_together_def)
    next
      case (Inr ut0)
      from add_source_language_Inr[OF Inr] obtain xs where "ut0 = T xs" by blast
      with Inr u show ?thesis by (simp add: add_unique_together_def add_unique_fields_T)
    qed
  qed
  have C: "I18nBase_new e name bases attrs \<noteq> Inl ImproperlyConfigured"
  proof
    assume "I18nBase_new e name bases attrs = Inl ImproperlyConfigured"
    with D have "add_source_language (unique_together m) = Inl ImproperlyConfigured" by blast
    then show False
      by (auto simp: add_source_language_def split: option.splits sum.splits if_splits
               elim!: index0.elims iadd.elims)
  qed
  from A B C D show ?thesis by blast
qed

theorem translation_fields_by_membership_witness:
  "\<exists>res m'. I18nBase_new blog_env ''FooI18N'' [''I18nModel'']
       (body_with (plain_meta\<lparr>translation_fields := Some [''body'', ''subtitle'', ''title'']\<rparr>)) = Inr res
     \<and> attr_members res =
         [(''title'', AField \<lparr>fname = ''title'', ftype = CharField, funique = False,
                              foptions = [(''max_length'', PInt 100)]\<rparr>),
          (''body'', AField \<lparr>fname = ''body'', ftype = TextField, funique = False,
                             foptions = []\<rparr>),
          (''i18n_source'', AForeignKey Foo)]
     \<and> map_of (attr_members res) ''subtitle'' = None
     \<and> attr_Meta res = Some m'
     \<and> unique_together m' =
         Some (T [T [S ''i18n_source'', S ''i18n_language''], T [S ''i18n_language'', S ''title'']])
     \<and> I18nBase_new blog_env ''FooI18N'' [''I18nModel'']
         (body_with (plain_meta\<lparr>translation_fields := Some [''title'', ''body'']\<rparr>)) = Inr res"
proof -
  let ?fs = "[''body'', ''subtitle'', ''title'']"
  let ?m = "plain_meta\<lparr>translation_fields := Some ?fs\<rparr>"
  obtain res where new: "I18nBase_new blog_env ''FooI18N'' [''I18nModel''] (body_with ?m) = Inr res"
    by (simp add: example_defs)
  have base: "''I18nModel'' \<in> set [''I18nModel'']" by simp
  have meta: "attr_Meta (body_with ?m) = Some ?m" by (simp add: body_with_def)
  have tf: "translation_fields ?m = Some ?fs" by simp
  have ne: "?fs \<noteq> []" by simp
  have src: "resolve_source blog_env ''FooI18N'' (body_with ?m) = Inr Foo"
    by (simp add: example_defs)
  note main = translation_fields_by_membership[OF base meta tf ne src]
  note A = main[THEN conjunct1, rule_format, OF new]
  have side: "distinct (map fname (model_fields Foo))
       \<and> fname ` set (model_fields Foo) \<inter> fst ` set (attr_members (body_with ?m)) = {}
       \<and> ''i18n_source'' \<notin> fname ` set (model_fields Foo)
       \<and> ''i18n_source'' \<notin> fst ` set (attr_members (body_with ?m))"
    by (simp add: Foo_def body_with_def)
  have mem: "attr_members res =
         [(''title'', AField \<lparr>fname = ''title'', ftype = CharField, funique = False,
                              foptions = [(''max_length'', PInt 100)]\<rparr>),
          (''body'', AField \<lparr>fname = ''body'', ftype = TextField, funique = False,
                             foptions = []\<rparr>),
          (''i18n_source'', AForeignKey Foo)]"
    using A[THEN conjunct2, THEN conjunct2, THEN conjunct2, THEN conjunct2, THEN conjunct2,
            THEN conjunct1, THEN mp, OF side]
    by (simp add: Foo_def body_with_def)
  have absent: "map_of (attr_members res) ''subtitle'' = None"
    using A[THEN conjunct2, THEN conjunct2, THEN conjunct2, THEN conjunct1, rule_format,
            of "''subtitle''"]
    by (simp add: Foo_def body_with_def)
  from A[THEN conjunct2, THEN conjunct2, THEN conjunct2, THEN conjunct2, THEN conjunct2,
         THEN conjunct2]
  obtain m' xs where m': "attr_Meta res = Some m'"
    and xs: "add_source_language (unique_together ?m) = Inr (T xs)"
    and ut: "unique_together m' =
       Some (T (xs @ map (\<lambda>f. T [S ''i18n_language'', S (fname f)])
                      (filter (\<lambda>f. fname f \<in> set ?fs \<and> funique f) (model_fields Foo))))"
    by blast
  from xs have "xs = [T [S ''i18n_source'', S ''i18n_language'']]"
    by (simp add: add_source_language_def plain_meta_def)
  with ut have ut': "unique_together m' =
         Some (T [T [S ''i18n_source'', S ''i18n_language''], T [S ''i18n_language'', S ''title'']])"
    by (simp add: Foo_def)
  have same: "[''title'', ''body''] \<noteq> [] \<and>
     (\<forall>n \<in> fname ` set (model_fields Foo). (n \<in> set [''title'', ''body'']) = (n \<in> set ?fs))"
    by (simp add: Foo_def)
  have upd: "(body_with ?m)\<lparr>attr_Meta := Some (?m\<lparr>translation_fields := Some [''title'', ''body'']\<rparr>)\<rparr>
      = body_with (plain_meta\<lparr>translation_fields := Some [''title'', ''body'']\<rparr>)"
    by (simp add: body_with_def)
  have "I18nBase_new blog_env ''FooI18N'' [''I18nModel'']
          ((body_with ?m)\<lparr>attr_Meta := Some (?m\<lparr>translation_fields := Some [''title'', ''body'']\<rparr>)\<rparr>)
        = I18nBase_new blog_env ''FooI18N'' [''I18nModel''] (body_with ?m)"
    by (rule main[THEN conjunct2, THEN conjunct1, rule_format, OF same])
  then have l: "I18nBase_new blog_env ''FooI18N'' [''I18nModel'']
         (body_with (plain_meta\<lparr>translation_fields := Some [''title'', ''body'']\<rparr>)) = Inr res"
    unfolding upd new .
  from new mem absent m' ut' l show ?thesis by blast
qed

subsection \<open>Source resolution\<close>

text \<open>
  Claim C7: a source given as a dotted string is looked up in the registry and resolution
  fails with a configuration error when the lookup finds nothing, whatever the name of the
  derived type. Lemma \<open>dotted_source_not_found\<close> is this for a name that does not end in
  \<open>I18N\<close>. For \<open>FooI18N\<close> with \<open>source_model = 'blog.Missing'\<close> the \<open>None\<close> that \<open>get_model\<close>
  returns sends the code into the naming convention, and the translation model is bound to
  \<open>Foo\<close>.
\<close>

theorem dotted_source_falls_back_to_name:
  "get_model blog_env ''blog'' ''Missing'' = None
   \<and> I18nBase_new blog_env ''FooI18N'' [''I18nModel'']
       (body_with (plain_meta\<lparr>source_model := Some (SrcStr ''blog.Missing'')\<rparr>))
     = Inr \<lparr>attr_module = ''blog.models'',
          attr_Meta = Some \<lparr>source_model = None, translation_fields = None,
             unique_together =
               Some (T [T [S ''i18n_source'', S ''i18n_language''],
                        T [S ''i18n_language'', S ''title'']])\<rparr>,
          attr_members =
            [(''title'', AField \<lparr>fname = ''title'', ftype = CharField, funique = False,
                                 foptions = [(''max_length'', PInt 100)]\<rparr>),
             (''body'', AField \<lparr>fname = ''body'', ftype = TextField, funique = False,
                                foptions = []\<rparr>),
             (''i18n_source'', AForeignKey Foo)]\<rparr>"
  by (simp add: example_defs)

subsection \<open>The manager\<close>

lemma accessor_fold:
  assumes "(code, nm) \<in> set ls"
    and "\<forall>l \<in> set ls. replace CHR ''-'' CHR ''_'' (fst l) = replace CHR ''-'' CHR ''_'' code \<longrightarrow> fst l = code"
  shows "map_of (fold (\<lambda>language c.
            (let language_code = fst language
             in AList.update (replace CHR ''-'' CHR ''_'' language_code)
                  (create_language_method language_code) c)) ls cls)
          (replace CHR ''-'' CHR ''_'' code) = Some (create_language_method code)"
  using assms
proof (induction ls arbitrary: cls rule: rev_induct)
  case Nil
  then show ?case by simp
next
  case (snoc l ls)
  show ?case
  proof (cases "replace CHR ''-'' CHR ''_'' (fst l) = replace CHR ''-'' CHR ''_'' code")
    case True
    with snoc.prems(2) have "fst l = code" by simp
    then show ?thesis by (simp add: update_conv' Let_def)
  next
    case False
    with snoc.prems(1) have "(code, nm) \<in> set ls" by auto
    moreover from snoc.prems(2) have
      "\<forall>l \<in> set ls. replace CHR ''-'' CHR ''_'' (fst l) = replace CHR ''-'' CHR ''_'' code \<longrightarrow> fst l = code"
      by simp
    ultimately show ?thesis using False snoc.IH by (simp add: update_conv' Let_def)
  qed
qed

text \<open>
  Claim C8: for every language code of the Language Set the manager has a zero-argument
  accessor named after the code with dashes turned into underscores, and the accessor
  returns what \<open>lang(code)\<close> returns on the same manager. The code is not the empty string
  (which \<open>lang\<close> reads as no code given), and no other code of the set has the same
  accessor name.
\<close>

theorem language_accessor_is_lang:
  assumes "(code, nm) \<in> set (LANGUAGES st)" and "code \<noteq> []"
    and "\<forall>l \<in> set (LANGUAGES st).
           replace CHR ''-'' CHR ''_'' (fst l) = replace CHR ''-'' CHR ''_'' code \<longrightarrow> fst l = code"
  shows "\<exists>accessor. map_of (I18nManager_new st cls) (replace CHR ''-'' CHR ''_'' code) = Some accessor
           \<and> (\<forall>self. accessor self = lang current self (PStr code))"
proof -
  from accessor_fold[OF assms(1,3)]
  have "map_of (I18nManager_new st cls) (replace CHR ''-'' CHR ''_'' code)
          = Some (create_language_method code)"
    by (simp add: I18nManager_new_def)
  moreover have "create_language_method code self = lang current self (PStr code)" for self
    using assms(2) by (simp add: create_language_method_def lang_def py_or_def)
  ultimately show ?thesis by blast
qed

theorem language_accessor_is_lang_witness:
  "\<exists>accessor. map_of (I18nManager_new example_settings []) ''pt_br'' = Some accessor
      \<and> accessor example_db = lang (PStr ''en'') example_db (PStr ''pt-br'')
      \<and> accessor example_db =
          [[(''i18n_source'', PInt 1), (''i18n_language'', PStr ''pt-br''), (''title'', PStr ''Ola'')]]"
proof -
  have h1: "(''pt-br'', ''Portuguese'') \<in> set (LANGUAGES example_settings)"
    by (simp add: example_settings_def)
  have h2: "''pt-br'' \<noteq> []" by simp
  have h3: "\<forall>l \<in> set (LANGUAGES example_settings).
           replace CHR ''-'' CHR ''_'' (fst l) = replace CHR ''-'' CHR ''_'' ''pt-br'' \<longrightarrow> fst l = ''pt-br''"
    by (simp add: example_settings_def replace_def)
  have n: "replace CHR ''-'' CHR ''_'' ''pt-br'' = ''pt_br''" by (simp add: replace_def)
  have v: "lang (PStr ''en'') example_db (PStr ''pt-br'') =
          [[(''i18n_source'', PInt 1), (''i18n_language'', PStr ''pt-br''), (''title'', PStr ''Ola'')]]"
    by (simp add: lang_def py_or_def qs_filter_def example_db_def)
  from language_accessor_is_lang[OF h1 h2 h3, of "[]" "PStr ''en''"] n v
  show ?thesis by auto
qed

text \<open>
  Claim C5 says that for the languages \<open>en\<close>, \<open>de\<close>, \<open>pt-br\<close> with default \<open>en\<close> the manager
  has accessors \<open>de\<close> and \<open>pt_br\<close> but none named \<open>en\<close>. The loop of \<open>__new__\<close> runs over all of
  \<open>settings.LANGUAGES\<close>, as the docstring of the class says, and \<open>en\<close> is among the names.
\<close>

theorem default_language_accessor_counterexample:
  "\<not> (''de'' \<in> fst ` set (I18nManager_new example_settings [])
      \<and> ''pt_br'' \<in> fst ` set (I18nManager_new example_settings [])
      \<and> ''en'' \<notin> fst ` set (I18nManager_new example_settings []))"
  by (simp add: I18nManager_new_def example_settings_def replace_def Let_def)

text \<open>
  Claim C5 as amended: for that Language Set the manager has the accessors \<open>en\<close>, \<open>de\<close> and
  \<open>pt_br\<close>, one for every configured language, the default language included; in general
  the names added are the accessor names of all codes of the Language Set.
\<close>

theorem accessor_for_every_language:
  "map fst (I18nManager_new example_settings []) = [''en'', ''de'', ''pt_br'']
   \<and> map_of (I18nManager_new example_settings []) ''en'' = Some (create_language_method ''en'')
   \<and> map_of (I18nManager_new example_settings []) ''de'' = Some (create_language_method ''de'')
   \<and> map_of (I18nManager_new example_settings []) ''pt_br'' = Some (create_language_method ''pt-br'')
   \<and> fst ` set (I18nManager_new st cls) =
        fst ` set cls \<union> (\<lambda>l. replace CHR ''-'' CHR ''_'' (fst l)) ` set (LANGUAGES st)"
proof -
  have g: "fst ` set (fold (\<lambda>language c.
            (let language_code = fst language
             in AList.update (replace CHR ''-'' CHR ''_'' language_code)
                  (create_language_method language_code) c)) ls c0) =
        fst ` set c0 \<union> (\<lambda>l. replace CHR ''-'' CHR ''_'' (fst l)) ` set ls" for ls c0
    by (induction ls arbitrary: c0) (auto simp: dom_update Let_def)
  show ?thesis
    by (simp add: I18nManager_new_def g) (simp add: example_settings_def replace_def Let_def)
qed

subsection \<open>The store and \<open>translate\<close>\<close>

lemma filter_upt_single:
  assumes "filter P [0..<n] = [pk]"
  shows "pk < n \<and> P pk \<and> (\<forall>j<n. P j \<longrightarrow> j = pk)"
proof -
  have "set (filter P [0..<n]) = {pk}" using assms by simp
  then have "{j. j < n \<and> P j} = {pk}" by auto
  then show ?thesis by blast
qed

lemma objects_get_Inr:
  assumes "objects_get db source language = Inr (pk, t)"
  shows "pk < length db \<and> t = db ! pk \<and> matches source language t \<and>
         (\<forall>j<length db. matches source language (db ! j) \<longrightarrow> j = pk)"
proof -
  from assms have f: "filter (\<lambda>i. matches source language (db ! i)) [0..<length db] = [pk]"
    and t: "t = db ! pk"
    by (auto simp: objects_get_def split: list.splits)
  from filter_upt_single[OF f] t show ?thesis by simp
qed

lemma objects_get_DoesNotExist:
  assumes "objects_get db source language = Inl DoesNotExist"
  shows "\<forall>j<length db. \<not> matches source language (db ! j)"
proof -
  from assms have "filter (\<lambda>i. matches source language (db ! i)) [0..<length db] = []"
    by (auto simp: objects_get_def split: list.splits)
  then show ?thesis by (auto simp: filter_empty_conv)
qed

lemma setattrs_lookup:
  "map_of (setattrs kwargs t) k =
     (case map_of (rev kwargs) k of None \<Rightarrow> map_of t k | Some v \<Rightarrow> Some v)"
  unfolding setattrs_def
proof (induction kwargs arbitrary: t)
  case Nil
  then show ?case by simp
next
  case (Cons kv kwargs)
  obtain k0 v0 where kv: "kv = (k0, v0)" by (cases kv)
  show ?case
    by (simp add: kv Cons.IH update_conv' map_add_def split: option.splits)
qed

lemma setattrs_untouched:
  "k \<notin> fst ` set kwargs \<Longrightarrow> map_of (setattrs kwargs t) k = map_of t k"
proof -
  assume "k \<notin> fst ` set kwargs"
  then have "k \<notin> fst ` set (rev kwargs)" by simp
  then have "map_of (rev kwargs) k = None" by (simp add: map_of_eq_None_iff)
  then show ?thesis by (simp add: setattrs_lookup)
qed

lemma setattrs_set:
  assumes "distinct (map fst kwargs)" "(k, v) \<in> set kwargs"
  shows "map_of (setattrs kwargs t) k = Some v"
proof -
  from assms have "distinct (map fst (rev kwargs))" "(k, v) \<in> set (rev kwargs)"
    by (simp_all add: rev_map[symmetric])
  then have "map_of (rev kwargs) k = Some v" by (rule map_of_is_SomeI)
  then show ?thesis by (simp add: setattrs_lookup)
qed

lemma filter_via_index:
  "filter P xs = map ((!) xs) (filter (\<lambda>i. P (xs ! i)) [0..<length xs])"
proof -
  have "filter P (map ((!) xs) [0..<length xs]) =
          map ((!) xs) (filter (\<lambda>i. P (xs ! i)) [0..<length xs])"
    by (simp add: filter_map comp_def)
  then show ?thesis by (simp add: map_nth)
qed

lemma objects_get_rows:
  "objects_get db source language = Inr (pk, t) \<Longrightarrow> filter (matches source language) db = [t]"
  "objects_get db source language = Inl DoesNotExist \<Longrightarrow> filter (matches source language) db = []"
  by (subst filter_via_index, auto simp: objects_get_def split: list.splits)+

lemma objects_get_exists:
  assumes "filter (matches source language) db = [t]"
  shows "\<exists>pk. objects_get db source language = Inr (pk, t)"
proof -
  from assms have "map ((!) db) (filter (\<lambda>i. matches source language (db ! i)) [0..<length db]) = [t]"
    by (simp add: filter_via_index[symmetric])
  then obtain pk where "filter (\<lambda>i. matches source language (db ! i)) [0..<length db] = [pk]"
    "db ! pk = t" by (auto simp: map_eq_Cons_conv)
  then show ?thesis by (auto simp: objects_get_def)
qed

lemma update_rows:
  assumes g: "objects_get db source language = Inr (pk, t)"
    and m: "matches source language t'"
  shows "filter (matches source language) (db[pk := t']) = [t']"
proof -
  from objects_get_Inr[OF g] have pk: "pk < length db"
    and only: "\<forall>j<length db. matches source language (db ! j) \<longrightarrow> j = pk"
    and mt: "matches source language (db ! pk)" by auto
  have "filter (\<lambda>i. matches source language (db[pk := t'] ! i)) [0..<length db] =
        filter (\<lambda>i. matches source language (db ! i)) [0..<length db]"
    using pk m mt by (intro filter_cong) (auto simp: nth_list_update)
  also have "\<dots> = [pk]"
    using g by (auto simp: objects_get_def split: list.splits)
  finally show ?thesis
    using pk by (subst filter_via_index) simp
qed

lemma translate_existing:
  assumes "objects_get db source language = Inr (pk, t)" "kwargs \<noteq> []"
  shows "I18nModel_translate uniques db source language kwargs =
           (if constraints_ok uniques (db[pk := setattrs kwargs t])
            then Inr (setattrs kwargs t, db[pk := setattrs kwargs t])
            else Inl IntegrityError)"
  using assms by (simp add: I18nModel_translate_def save_def Let_def)

lemma translate_missing:
  assumes "objects_get db source language = Inl DoesNotExist" "kwargs \<noteq> []"
  shows "I18nModel_translate uniques db source language kwargs =
           objects_create uniques db source language kwargs"
  using assms by (simp add: I18nModel_translate_def)

lemma translate_Inr_cases:
  assumes "I18nModel_translate uniques db source language kwargs = Inr (t', db')"
    and "kwargs \<noteq> []"
  shows "(filter (matches source language) db = [] \<and>
            t' = (''i18n_source'', source) # (''i18n_language'', language) # kwargs \<and>
            db' = db @ [t'] \<and>
            ''i18n_source'' \<notin> fst ` set kwargs \<and> ''i18n_language'' \<notin> fst ` set kwargs)
       \<or> (\<exists>pk t. objects_get db source language = Inr (pk, t) \<and>
            filter (matches source language) db = [t] \<and> pk < length db \<and> db ! pk = t \<and>
            t' = setattrs kwargs t \<and> db' = db[pk := t'])"
proof (cases "objects_get db source language")
  case (Inl err)
  with assms have e: "err = DoesNotExist"
    by (cases err) (auto simp: I18nModel_translate_def)
  from Inl e have g: "objects_get db source language = Inl DoesNotExist" by simp
  from assms translate_missing[OF g assms(2)]
  have "objects_create uniques db source language kwargs = Inr (t', db')" by simp
  then have "t' = (''i18n_source'', source) # (''i18n_language'', language) # kwargs \<and>
            db' = db @ [t'] \<and>
            ''i18n_source'' \<notin> fst ` set kwargs \<and> ''i18n_language'' \<notin> fst ` set kwargs"
    by (auto simp: objects_create_def Let_def split: if_splits)
  with objects_get_rows(2)[OF g] show ?thesis by simp
next
  case (Inr r)
  obtain pk t where r: "r = (pk, t)" by (cases r)
  with Inr have g: "objects_get db source language = Inr (pk, t)" by simp
  from assms translate_existing[OF g assms(2)]
  have "t' = setattrs kwargs t \<and> db' = db[pk := t']" by (auto split: if_splits)
  with g objects_get_rows(1)[OF g] objects_get_Inr[OF g] show ?thesis by auto
qed

lemma matches_setattrs:
  assumes "matches source language t"
    "''i18n_source'' \<notin> fst ` set kwargs" "''i18n_language'' \<notin> fst ` set kwargs"
  shows "matches source language (setattrs kwargs t)"
  using assms by (simp add: matches_def setattrs_untouched)

lemma translate_returns:
  assumes "length (filter (matches source language) db) \<le> 1" "kwargs \<noteq> []"
    "''i18n_source'' \<notin> fst ` set kwargs" "''i18n_language'' \<notin> fst ` set kwargs"
  shows "(\<exists>t' db'. I18nModel_translate uniques db source language kwargs = Inr (t', db'))
       \<or> I18nModel_translate uniques db source language kwargs = Inl IntegrityError"
proof (cases "filter (matches source language) db")
  case Nil
  then have "filter (\<lambda>i. matches source language (db ! i)) [0..<length db] = []"
    by (subst (asm) filter_via_index) simp
  then have "objects_get db source language = Inl DoesNotExist"
    by (simp add: objects_get_def)
  from translate_missing[OF this assms(2)] assms(3,4) show ?thesis
    by (simp add: objects_create_def Let_def)
next
  case (Cons t ts)
  with assms(1) have "filter (matches source language) db = [t]" by simp
  from objects_get_exists[OF this] obtain pk where
    "objects_get db source language = Inr (pk, t)" by blast
  from translate_existing[OF this assms(2)] show ?thesis by simp
qed

text \<open>
  The table refuses a write that breaks a constraint: in the example table the title
  \<open>Welt\<close> is taken in German by source 2, so source 1 cannot take it under the constraint
  \<open>(i18n_language, title)\<close>.
\<close>

lemma translate_refused_example:
  "I18nModel_translate example_uniques example_db (PInt 1) (PStr ''de'') [(''title'', PStr ''Welt'')]
     = Inl IntegrityError"
  by (simp add: I18nModel_translate_def objects_get_def matches_def example_db_def
      example_uniques_def save_def setattrs_def constraints_ok_def agree_def upt_rec Let_def)

text \<open>
  Claim C4: a call of \<open>translate\<close> with non-empty updates updates the row for
  \<open>(source, language)\<close> in place when there is one and creates a row otherwise; so two calls
  for the same pair with two values of the same attribute leave exactly one row for the
  pair, and its attribute has the second value. Both calls return a row, the second
  updates are a dictionary, and they do not rename the two key columns.
\<close>

theorem translate_last_write_wins:
  assumes c1: "I18nModel_translate uniques db source language kwargs1 = Inr (t1, db1)"
    and c2: "I18nModel_translate uniques db1 source language kwargs2 = Inr (t2, db2)"
    and ne1: "kwargs1 \<noteq> []" and ne2: "kwargs2 \<noteq> []"
    and d: "distinct (map fst kwargs2)"
    and rs: "''i18n_source'' \<notin> fst ` set kwargs2"
    and rl: "''i18n_language'' \<notin> fst ` set kwargs2"
    and kv: "(k, v2) \<in> set kwargs2"
  shows "filter (matches source language) db2 = [t2] \<and> map_of t2 k = Some v2
       \<and> ((filter (matches source language) db = [] \<and> db1 = db @ [t1])
          \<or> (\<exists>pk. pk < length db \<and> filter (matches source language) db = [db ! pk]
                \<and> db1 = db[pk := t1]))
       \<and> ((filter (matches source language) db1 = [] \<and> db2 = db1 @ [t2])
          \<or> (\<exists>pk. pk < length db1 \<and> filter (matches source language) db1 = [db1 ! pk]
                \<and> db2 = db1[pk := t2]))"
proof -
  have last: "filter (matches source language) db2 = [t2] \<and> map_of t2 k = Some v2"
    using translate_Inr_cases[OF c2 ne2]
  proof (elim disjE exE conjE)
    assume a: "filter (matches source language) db1 = []"
      "t2 = (''i18n_source'', source) # (''i18n_language'', language) # kwargs2"
      "db2 = db1 @ [t2]"
    have k: "k \<noteq> ''i18n_source''" "k \<noteq> ''i18n_language''"
      using kv rs rl by force+
    have "map_of kwargs2 k = Some v2" using d kv by (rule map_of_is_SomeI)
    with a k show ?thesis by (simp add: matches_def)
  next
    fix pk t
    assume g: "objects_get db1 source language = Inr (pk, t)"
      and t2: "t2 = setattrs kwargs2 t" and db2: "db2 = db1[pk := t2]"
    from objects_get_Inr[OF g] have "matches source language t" by blast
    from matches_setattrs[OF this rs rl] have "matches source language t2" by (simp add: t2)
    from update_rows[OF g this] db2 setattrs_set[OF d kv] t2 show ?thesis by simp
  qed
  have first: "(filter (matches source language) db = [] \<and> db1 = db @ [t1])
          \<or> (\<exists>pk. pk < length db \<and> filter (matches source language) db = [db ! pk]
                \<and> db1 = db[pk := t1])"
    using translate_Inr_cases[OF c1 ne1] by blast
  have second: "(filter (matches source language) db1 = [] \<and> db2 = db1 @ [t2])
          \<or> (\<exists>pk. pk < length db1 \<and> filter (matches source language) db1 = [db1 ! pk]
                \<and> db2 = db1[pk := t2])"
    using translate_Inr_cases[OF c2 ne2] by blast
  from last first second show ?thesis by blast
qed

theorem translate_last_write_wins_witness:
  "\<exists>t1 db1 t2 db2.
     I18nModel_translate example_uniques example_db (PInt 3) (PStr ''de'')
        [(''title'', PStr ''Guten Tag'')] = Inr (t1, db1)
   \<and> db1 = example_db @ [t1]
   \<and> I18nModel_translate example_uniques db1 (PInt 3) (PStr ''de'')
        [(''title'', PStr ''Servus'')] = Inr (t2, db2)
   \<and> length db2 = length db1
   \<and> filter (matches (PInt 3) (PStr ''de'')) db2 = [t2]
   \<and> map_of t2 ''title'' = Some (PStr ''Servus'')"
proof -
  obtain t1 db1 where c1: "I18nModel_translate example_uniques example_db (PInt 3) (PStr ''de'')
        [(''title'', PStr ''Guten Tag'')] = Inr (t1, db1)"
    and db1: "db1 =
       [[(''i18n_source'', PInt 1), (''i18n_language'', PStr ''de''), (''title'', PStr ''Hallo'')],
        [(''i18n_source'', PInt 1), (''i18n_language'', PStr ''pt-br''), (''title'', PStr ''Ola'')],
        [(''i18n_source'', PInt 2), (''i18n_language'', PStr ''de''), (''title'', PStr ''Welt'')],
        [(''i18n_source'', PInt 3), (''i18n_language'', PStr ''de''), (''title'', PStr ''Guten Tag'')]]"
    and t1: "db1 = example_db @ [t1]"
    by (simp add: I18nModel_translate_def objects_get_def objects_create_def matches_def
        example_db_def example_uniques_def constraints_ok_def agree_def upt_rec Let_def)
  obtain t2 db2 where c2: "I18nModel_translate example_uniques db1 (PInt 3) (PStr ''de'')
        [(''title'', PStr ''Servus'')] = Inr (t2, db2)"
    and len: "length db2 = length db1"
    by (simp add: db1 I18nModel_translate_def objects_get_def matches_def
        example_uniques_def save_def setattrs_def constraints_ok_def agree_def upt_rec Let_def)
  have ne1: "[(''title'', PStr ''Guten Tag'')] \<noteq> []" by simp
  have ne2: "[(''title'', PStr ''Servus'')] \<noteq> []" by simp
  have d: "distinct (map fst [(''title'', PStr ''Servus'')])" by simp
  have rs: "''i18n_source'' \<notin> fst ` set [(''title'', PStr ''Servus'')]" by simp
  have rl: "''i18n_language'' \<notin> fst ` set [(''title'', PStr ''Servus'')]" by simp
  have kv: "(''title'', PStr ''Servus'') \<in> set [(''title'', PStr ''Servus'')]" by simp
  note main = translate_last_write_wins[OF c1 c2 ne1 ne2 d rs rl kv]
  from main[THEN conjunct1] main[THEN conjunct2, THEN conjunct1] c1 c2 t1 len
  show ?thesis by blast
qed

text \<open>
  Claim C10: when \<open>translate\<close> finds the row for \<open>(source, language)\<close> and the updates are
  not empty, only the attributes named in the updates change on that row: every other
  attribute, \<open>i18n_source\<close> and \<open>i18n_language\<close> among them, keeps its value in the row that
  is written and returned, and the other rows of the table are untouched. The call returns
  that row unless the table refuses the write.
\<close>

theorem translate_update_frame:
  assumes g: "objects_get db source language = Inr (pk, t)" and ne: "kwargs \<noteq> []"
  shows "I18nModel_translate uniques db source language kwargs =
           (if constraints_ok uniques (db[pk := setattrs kwargs t])
            then Inr (setattrs kwargs t, db[pk := setattrs kwargs t])
            else Inl IntegrityError)
       \<and> (\<forall>k. k \<notin> fst ` set kwargs \<longrightarrow> map_of (setattrs kwargs t) k = map_of t k)
       \<and> (''i18n_source'' \<notin> fst ` set kwargs \<longrightarrow>
            map_of (setattrs kwargs t) ''i18n_source'' = Some source)
       \<and> (''i18n_language'' \<notin> fst ` set kwargs \<longrightarrow>
            map_of (setattrs kwargs t) ''i18n_language'' = Some language)
       \<and> (\<forall>j. j \<noteq> pk \<longrightarrow> db[pk := setattrs kwargs t] ! j = db ! j)"
proof -
  from objects_get_Inr[OF g] have "matches source language t" by blast
  then show ?thesis
    using translate_existing[OF g ne, of uniques]
    by (simp add: setattrs_untouched matches_def)
qed

theorem translate_update_frame_witness:
  "I18nModel_translate example_uniques example_db (PInt 1) (PStr ''de'') [(''title'', PStr ''Servus'')]
     = Inr ([(''i18n_source'', PInt 1), (''i18n_language'', PStr ''de''), (''title'', PStr ''Servus'')],
            [[(''i18n_source'', PInt 1), (''i18n_language'', PStr ''de''), (''title'', PStr ''Servus'')],
             [(''i18n_source'', PInt 1), (''i18n_language'', PStr ''pt-br''), (''title'', PStr ''Ola'')],
             [(''i18n_source'', PInt 2), (''i18n_language'', PStr ''de''), (''title'', PStr ''Welt'')]])"
proof -
  have g: "objects_get example_db (PInt 1) (PStr ''de'')
     = Inr (0, [(''i18n_source'', PInt 1), (''i18n_language'', PStr ''de''), (''title'', PStr ''Hallo'')])"
    by (simp add: objects_get_def matches_def example_db_def upt_rec)
  have ne: "[(''title'', PStr ''Servus'')] \<noteq> []" by simp
  from translate_update_frame[OF g ne, of example_uniques]
  show ?thesis
    by (simp add: example_db_def example_uniques_def setattrs_def constraints_ok_def agree_def)
qed

subsection \<open>The template tag\<close>

lemma py_or_idem: "py_or (py_or a b) b = py_or a b"
  by (simp add: py_or_def)

text \<open>
  Claim C9: the tag returns the translation of the object in the language \<open>L\<close> when one
  exists and \<open>L\<close> is not the default language; it returns the object itself when \<open>L\<close> is the
  default language and whenever the lookup fails, and it never raises. \<open>L\<close> is the language
  argument, or the current language when the argument is empty.
\<close>

theorem templatetag_translate_result:
  assumes "language = py_or language0 current"
  shows "(\<exists>r. templatetag_translate st current ob language0 = Inr r)
     \<and> (language = PStr (LANGUAGE_CODE st) \<longrightarrow>
          templatetag_translate st current ob language0 = Inr (Original ob))
     \<and> (\<forall>translations t. language \<noteq> PStr (LANGUAGE_CODE st)
            \<and> obj_translations ob = Some translations
            \<and> qs_filter ''i18n_language'' language translations = [t] \<longrightarrow>
          templatetag_translate st current ob language0 = Inr (Translation t))
     \<and> (obj_translations ob = None \<longrightarrow>
          templatetag_translate st current ob language0 = Inr (Original ob))
     \<and> (\<forall>translations err. obj_translations ob = Some translations
            \<and> get_by_lang current translations language = Inl err \<longrightarrow>
          templatetag_translate st current ob language0 = Inr (Original ob))"
  using assms
  by (auto simp: templatetag_translate_def Let_def get_by_lang_def qs_get_def py_or_idem
           split: option.splits sum.splits list.splits)

theorem templatetag_translate_result_witness:
  "templatetag_translate example_settings (PStr ''en'') example_obj (PStr ''de'')
     = Inr (Translation
         [(''i18n_source'', PInt 1), (''i18n_language'', PStr ''de''), (''title'', PStr ''Hallo'')])
   \<and> templatetag_translate example_settings (PStr ''en'') example_obj PNone
     = Inr (Original example_obj)
   \<and> templatetag_translate example_settings (PStr ''en'') example_obj (PStr ''fr'')
     = Inr (Original example_obj)"
proof -
  have a: "PStr ''de'' = py_or (PStr ''de'') (PStr ''en'')" by (simp add: py_or_def)
  have b: "PStr ''en'' = py_or PNone (PStr ''en'')" by (simp add: py_or_def)
  have c: "PStr ''fr'' = py_or (PStr ''fr'') (PStr ''en'')" by (simp add: py_or_def)
  have e: "get_by_lang (PStr ''en'') (the (obj_translations example_obj)) (PStr ''fr'') = Inl DoesNotExist"
    by (simp add: get_by_lang_def qs_get_def qs_filter_def py_or_def example_obj_def)
  from templatetag_translate_result[OF a, of example_settings example_obj]
       templatetag_translate_result[OF b, of example_settings example_obj]
       templatetag_translate_result[OF c, of example_settings example_obj] e
  show ?thesis
    by (simp add: example_settings_def example_obj_def qs_filter_def)
qed

end
